theory Spec2Isabelle
  imports Complex_Main
begin

section \<open>JavaScript values\<close>

text \<open>
  The JavaScript sources handle parsed JSON documents and the values around them. A value
  is \<open>undefined\<close>, \<open>null\<close>, a boolean, a number, a string, an array or an object. A number
  is represented by its exact value (the sources only ever test a number for being zero);
  an object is the list of its own properties, the first binding of a key being the one
  the object holds.
\<close>

datatype jsval =
    JUndef
  | JNull
  | JBool bool
  | JNum rat
  | JStr string
  | JArr "jsval list"
  | JObj "(string \<times> jsval) list"

text \<open>Truthiness, as \<open>if (v)\<close>, \<open>!v\<close>, \<open>a || b\<close> and \<open>a && b\<close> test it.\<close>

fun truthy :: "jsval \<Rightarrow> bool" where
  "truthy JUndef = False"
| "truthy JNull = False"
| "truthy (JBool b) = b"
| "truthy (JNum n) = (n \<noteq> 0)"
| "truthy (JStr s) = (s \<noteq> [])"
| "truthy (JArr xs) = True"
| "truthy (JObj kvs) = True"

definition js_or :: "jsval \<Rightarrow> jsval \<Rightarrow> jsval" where
  "js_or a b = (if truthy a then a else b)"

definition js_and :: "jsval \<Rightarrow> jsval \<Rightarrow> jsval" where
  "js_and a b = (if truthy a then b else a)"

fun is_string :: "jsval \<Rightarrow> bool" where
  "is_string (JStr s) = True"
| "is_string v = False"

text \<open>
  A template literal with one interpolation, \<open>`prefix${value}`\<close>, is kept as the pair of
  its prefix and the interpolated value: the string it denotes is the prefix followed by
  the value converted to a string. \<open>Lit\<close> is a plain string literal. \<open>render\<close> gives the
  denoted string where the conversion is the identity or a keyword (the conversion of
  numbers, arrays and objects is not needed by any property below and is left out).
\<close>

datatype template = Lit string | Interp string jsval


text \<open>
  The conversion to a string can throw. A string, a number, a boolean, \<open>null\<close> and
  \<open>undefined\<close> always convert. An object converts through its \<open>toString\<close>: an object
  without an own property of that name inherits the built-in one, which gives
  \<open>[object Object]\<close>; an own \<open>toString\<close> hides it, and since no value here is a
  function (and the inherited \<open>valueOf\<close> gives the object back), the conversion throws
  a \<open>TypeError\<close>. An array converts by joining its elements, each converted in turn
  (\<open>null\<close> and \<open>undefined\<close> as the empty string), so it throws when one of them does.
\<close>

fun conversion_throws :: "jsval \<Rightarrow> bool" where
  "conversion_throws (JObj kvs) = (map_of kvs ''toString'' \<noteq> None)"
| "conversion_throws (JArr xs) = list_ex conversion_throws xs"
| "conversion_throws v = False"

text \<open>
  What a \<open>throw\<close> carries: a \<open>TypeError\<close> raised by the runtime when a property of
  \<open>undefined\<close> or \<open>null\<close> is read, or an \<open>Error\<close> built by the code with its message.
\<close>

datatype js_error = TypeError | Error template

text \<open>
  Reading a property \<open>v.k\<close>, for the property names the sources use (\<open>data\<close>,
  \<open>decision\<close>, \<open>allow\<close>, \<open>message\<close>, \<open>agent_id\<close>, \<open>agentId\<close>, \<open>reasons\<close>, ...; none of
  them is a built-in property of a string, a number, a boolean or an array): reading from
  \<open>undefined\<close> or \<open>null\<close> throws, an object yields its binding or \<open>undefined\<close>, every
  other value yields \<open>undefined\<close>. \<open>opt_prop\<close> is the optional chaining \<open>v?.k\<close>.
\<close>

fun get_prop :: "jsval \<Rightarrow> string \<Rightarrow> js_error + jsval" where
  "get_prop JUndef k = Inl TypeError"
| "get_prop JNull k = Inl TypeError"
| "get_prop (JObj kvs) k = Inr (case map_of kvs k of None \<Rightarrow> JUndef | Some v \<Rightarrow> v)"
| "get_prop v k = Inr JUndef"

fun opt_prop :: "jsval \<Rightarrow> string \<Rightarrow> jsval" where
  "opt_prop (JObj kvs) k = (case map_of kvs k of None \<Rightarrow> JUndef | Some v \<Rightarrow> v)"
| "opt_prop v k = JUndef"

section \<open>The transport: an axios instance\<close>

text \<open>
  A request as the client hands it to its axios instance: method, URL (relative to the
  instance's base URL), body, query parameters, and the instance's default headers, which
  every request of the instance carries.
\<close>

datatype http_method = GET | POST

record request =
  rq_method :: http_method
  rq_url :: template
  rq_body :: jsval
  rq_params :: "(string \<times> jsval) list"
  rq_headers :: "(string \<times> template) list"

text \<open>
  axios resolves with a response (status in the 2xx range), or rejects with an error that
  holds the response when one was received (any other status) and none when the request
  got no answer (DNS, connection, timeout); the error has a message.
\<close>

record response =
  status :: nat
  statusText :: jsval
  data :: jsval

record failure =
  fl_response :: "response option"
  fl_message :: jsval

datatype outcome = Resolved response | Rejected failure

text \<open>
  The remote side (or a test double): it answers a request, knowing the requests it has
  seen before. Every operation of the client takes the log of the requests made so far
  and returns it extended by the requests it made, in order.
\<close>

type_synonym transport = "request list \<Rightarrow> request \<Rightarrow> outcome"

section \<open>APortClient (the module the CLI requires as \<open>./client\<close>)\<close>

record client =
  apiKey :: jsval
  baseUrl :: jsval
  headers :: "(string \<times> template) list"
  timeout :: nat

text \<open>
  The constructor's inputs: the \<open>options\<close> object (an absent option is \<open>undefined\<close>) and
  the two environment variables it reads (an unset variable is \<open>undefined\<close>).
\<close>

record options =
  opt_apiKey :: jsval
  opt_baseUrl :: jsval

record environment =
  APORT_API_KEY :: "string option"
  APORT_BASE_URL :: "string option"

definition env_value :: "string option \<Rightarrow> jsval" where
  "env_value v = (case v of None \<Rightarrow> JUndef | Some s \<Rightarrow> JStr s)"

text \<open>
  The constructor has no \<open>throw\<close>: it computes the two fields and creates the axios
  instance, whose \<open>Authorization\<close> header is spread in only for a truthy \<open>apiKey\<close>. Its
  result is a sum so that "the constructor throws" can be stated (and refuted).
\<close>

definition new_APortClient :: "options \<Rightarrow> environment \<Rightarrow> js_error + client" where
  "new_APortClient opts env =
     (let key = js_or (opt_apiKey opts) (env_value (APORT_API_KEY env));
          url = js_or (js_or (opt_baseUrl opts) (env_value (APORT_BASE_URL env)))
                      (JStr ''https://aport.io'')
      in Inr \<lparr> apiKey = key,
               baseUrl = url,
               headers = (if truthy key then [(''Authorization'', Interp ''Bearer '' key)] else [])
                         @ [(''Content-Type'', Lit ''application/json'')],
               timeout = 10000 \<rparr>)"

text \<open>
  The \<open>catch\<close> block that every method repeats word for word: an error holding a response
  becomes \<open>API Error: ${error.response.data.message || error.response.statusText}\<close>, any
  other error becomes \<open>Network Error: ${error.message}\<close>. Reading \<open>.message\<close> of a body
  that is \<open>null\<close> or \<open>undefined\<close> throws a \<open>TypeError\<close> out of the \<open>catch\<close> block.
\<close>

definition rethrow :: "failure \<Rightarrow> js_error" where
  "rethrow e =
     (case fl_response e of
        Some r \<Rightarrow>
          (case get_prop (data r) ''message'' of
             Inl t \<Rightarrow> t
           | Inr m \<Rightarrow> Error (Interp ''API Error: '' (js_or m (statusText r))))
      | None \<Rightarrow> Error (Interp ''Network Error: '' (fl_message e)))"

text \<open>
  The URL of a request is a template literal over an argument of the method (\<open>policy\<close>,
  \<open>agentId\<close>, \<open>policyId\<close>). The literal is evaluated inside the method's \<open>try\<close>, before
  the request is handed to axios: an argument whose conversion to a string throws
  (\<open>conversion_throws\<close>) ends in the \<open>catch\<close> block with no request made. The methods
  below are modelled for arguments whose conversion does not throw, as is the case for
  every string; there the URL is kept as the template.
\<close>

text \<open>A default parameter \<open>x = d\<close>: the default replaces \<open>undefined\<close> only.\<close>

definition default_param :: "jsval \<Rightarrow> jsval \<Rightarrow> jsval" where
  "default_param x d = (if x = JUndef then d else x)"

definition verify_request :: "client \<Rightarrow> jsval \<Rightarrow> jsval \<Rightarrow> jsval \<Rightarrow> request" where
  "verify_request c policy agentId context =
     \<lparr> rq_method = POST,
       rq_url = Interp ''/api/verify/policy/'' policy,
       rq_body = JObj [(''context'',
                   JObj [(''agent_id'', agentId),
                         (''policy_id'', policy),
                         (''context'', default_param context (JObj []))])],
       rq_params = [],
       rq_headers = headers c \<rparr>"

definition verify ::
  "client \<Rightarrow> transport \<Rightarrow> request list \<Rightarrow> jsval \<Rightarrow> jsval \<Rightarrow> jsval
     \<Rightarrow> (js_error + jsval) \<times> request list" where
  "verify c net hist policy agentId context =
     (let rq = verify_request c policy agentId context
      in (case net hist rq of
            Resolved r \<Rightarrow> Inr (data r)
          | Rejected e \<Rightarrow> Inl (rethrow e),
          hist @ [rq]))"

definition verifyPolicy ::
  "client \<Rightarrow> transport \<Rightarrow> request list \<Rightarrow> jsval \<Rightarrow> jsval \<Rightarrow> jsval
     \<Rightarrow> (js_error + jsval) \<times> request list" where
  "verifyPolicy c net hist policy agentId context =
     (let rq = \<lparr> rq_method = POST,
                 rq_url = Interp ''/api/verify/policy/'' policy,
                 rq_body = JObj [(''context'',
                             JObj [(''agent_id'', agentId),
                                   (''policy_id'', policy),
                                   (''context'', default_param context (JObj []))])],
                 rq_params = [],
                 rq_headers = headers c \<rparr>
      in (case net hist rq of
            Resolved r \<Rightarrow> Inr (data r)
          | Rejected e \<Rightarrow> Inl (rethrow e),
          hist @ [rq]))"

definition issue_request :: "client \<Rightarrow> jsval \<Rightarrow> request" where
  "issue_request c passportData =
     \<lparr> rq_method = POST, rq_url = Lit ''/api/issue'', rq_body = passportData,
       rq_params = [], rq_headers = headers c \<rparr>"

definition createPassport ::
  "client \<Rightarrow> transport \<Rightarrow> request list \<Rightarrow> jsval \<Rightarrow> (js_error + jsval) \<times> request list" where
  "createPassport c net hist passportData =
     (if \<not> truthy (apiKey c)
      then (Inl (Error (Lit
        ''API key required for passport creation. Set APORT_API_KEY environment variable or use --api-key option.'')),
            hist)
      else
        (let rq = issue_request c passportData
         in (case net hist rq of
               Resolved r \<Rightarrow> Inr (data r)
             | Rejected e \<Rightarrow> Inl (rethrow e),
             hist @ [rq])))"

text \<open>
  \<open>getPassport\<close>: the probe is a \<open>GET /api/verify/${agentId}\<close> with the fixed policy pack
  \<open>code.repository.merge.v1\<close> and the context \<open>JSON.stringify({})\<close>; the direct lookup is
  a \<open>GET /api/passports/${agentId}\<close>. The direct lookup stands in the \<open>catch\<close> block of
  the probe; a probe that resolves without \<open>agent_id\<close> leaves the \<open>try\<close> and reaches the
  final \<open>throw\<close>.
\<close>

definition probe_request :: "client \<Rightarrow> jsval \<Rightarrow> request" where
  "probe_request c agentId =
     \<lparr> rq_method = GET, rq_url = Interp ''/api/verify/'' agentId,
       rq_body = JUndef,
       rq_params = [(''policy_pack'', JStr ''code.repository.merge.v1''),
                    (''context'', JStr ''{}'')],
       rq_headers = headers c \<rparr>"

definition passport_request :: "client \<Rightarrow> jsval \<Rightarrow> request" where
  "passport_request c agentId =
     \<lparr> rq_method = GET, rq_url = Interp ''/api/passports/'' agentId,
       rq_body = JUndef, rq_params = [], rq_headers = headers c \<rparr>"

definition getPassport ::
  "client \<Rightarrow> transport \<Rightarrow> request list \<Rightarrow> jsval \<Rightarrow> (js_error + jsval) \<times> request list" where
  "getPassport c net hist agentId =
     (let probe = probe_request c agentId;
          hist1 = hist @ [probe]
      in case net hist probe of
           Resolved r \<Rightarrow>
             (if truthy (js_and (data r) (opt_prop (data r) ''agent_id''))
              then (Inr (data r), hist1)
              else (Inl (Error (Lit ''Unable to retrieve passport information'')), hist1))
         | Rejected e \<Rightarrow>
             (if \<not> truthy (apiKey c)
              then (Inl (Error (Lit
                ''API key required for passport retrieval. Set APORT_API_KEY environment variable or use --api-key option.'')),
                    hist1)
              else
                (let direct = passport_request c agentId
                 in (case net hist1 direct of
                       Resolved r \<Rightarrow> Inr (data r)
                     | Rejected pe \<Rightarrow> Inl (rethrow pe),
                     hist1 @ [direct]))))"

definition suspend_request :: "client \<Rightarrow> jsval \<Rightarrow> jsval \<Rightarrow> request" where
  "suspend_request c agentId reason =
     \<lparr> rq_method = POST, rq_url = Lit ''/api/suspend'',
       rq_body = JObj [(''agent_id'', agentId),
                       (''reason'', default_param reason (JStr ''Suspended via CLI''))],
       rq_params = [], rq_headers = headers c \<rparr>"

definition suspendPassport ::
  "client \<Rightarrow> transport \<Rightarrow> request list \<Rightarrow> jsval \<Rightarrow> jsval
     \<Rightarrow> (js_error + jsval) \<times> request list" where
  "suspendPassport c net hist agentId reason =
     (let rq = suspend_request c agentId reason
      in (case net hist rq of
            Resolved r \<Rightarrow> Inr (data r)
          | Rejected e \<Rightarrow> Inl (rethrow e),
          hist @ [rq]))"

definition getPolicyPack ::
  "client \<Rightarrow> transport \<Rightarrow> request list \<Rightarrow> jsval \<Rightarrow> (js_error + jsval) \<times> request list" where
  "getPolicyPack c net hist policyId =
     (let rq = \<lparr> rq_method = GET, rq_url = Interp ''/api/policies/'' policyId,
                 rq_body = JUndef, rq_params = [], rq_headers = headers c \<rparr>
      in (case net hist rq of
            Resolved r \<Rightarrow> Inr (data r)
          | Rejected e \<Rightarrow> Inl (rethrow e),
          hist @ [rq]))"

definition listPolicyPacks ::
  "client \<Rightarrow> transport \<Rightarrow> request list \<Rightarrow> (js_error + jsval) \<times> request list" where
  "listPolicyPacks c net hist =
     (let rq = \<lparr> rq_method = GET, rq_url = Lit ''/api/policies'',
                 rq_body = JUndef, rq_params = [], rq_headers = headers c \<rparr>
      in (case net hist rq of
            Resolved r \<Rightarrow> Inr (data r)
          | Rejected e \<Rightarrow> Inl (rethrow e),
          hist @ [rq]))"

text \<open>
  One call of a method of the client, to speak of every request a client issues.
\<close>

datatype call =
    Verify jsval jsval jsval
  | VerifyPolicy jsval jsval jsval
  | CreatePassport jsval
  | GetPassport jsval
  | SuspendPassport jsval jsval
  | GetPolicyPack jsval
  | ListPolicyPacks

fun perform :: "client \<Rightarrow> transport \<Rightarrow> request list \<Rightarrow> call \<Rightarrow> (js_error + jsval) \<times> request list" where
  "perform c net hist (Verify policy agentId context) = verify c net hist policy agentId context"
| "perform c net hist (VerifyPolicy policy agentId context) =
     verifyPolicy c net hist policy agentId context"
| "perform c net hist (CreatePassport passportData) = createPassport c net hist passportData"
| "perform c net hist (GetPassport agentId) = getPassport c net hist agentId"
| "perform c net hist (SuspendPassport agentId reason) = suspendPassport c net hist agentId reason"
| "perform c net hist (GetPolicyPack policyId) = getPolicyPack c net hist policyId"
| "perform c net hist ListPolicyPacks = listPolicyPacks c net hist"

text \<open>
  The client's unit test "should throw error if no API key provided" deletes
  \<open>APORT_API_KEY\<close> from the environment and expects \<open>new APortClient()\<close> to throw; the
  expectation can only be met when the constructor call throws.
\<close>

definition constructor_throws :: "environment \<Rightarrow> bool" where
  "constructor_throws env =
     isl (new_APortClient \<lparr> opt_apiKey = JUndef, opt_baseUrl = JUndef \<rparr>
                          (env \<lparr> APORT_API_KEY := None \<rparr>))"

section \<open>The CLI's verify command (examples/developer-tools/cli/src/index.js)\<close>

text \<open>
  Lines 103 to 105 of the action: \<open>const decision = result.data?.decision ||
  result.decision; const isApproved = decision && decision.allow;\<close>. Reading
  \<open>result.data\<close> throws when the body \<open>verify\<close> returned is \<open>null\<close> or \<open>undefined\<close>.
  (In \<open>decision && decision.allow\<close> the right operand is read only from a truthy
  \<open>decision\<close>, where the read cannot throw.)
\<close>

definition cli_decision :: "jsval \<Rightarrow> js_error + jsval" where
  "cli_decision result =
     (case get_prop result ''data'' of
        Inl e \<Rightarrow> Inl e
      | Inr d \<Rightarrow>
          (if truthy (opt_prop d ''decision'') then Inr (opt_prop d ''decision'')
           else get_prop result ''decision''))"

definition cli_isApproved :: "jsval \<Rightarrow> jsval" where
  "cli_isApproved decision = js_and decision (opt_prop decision ''allow'')"

text \<open>
  What the action prints after \<open>verify\<close> has returned \<open>result\<close>, one event per
  \<open>console.log\<close> (the fixed texts are named by the constructors, an interpolated value is
  carried as it is); a \<open>throw\<close> anywhere ends in the action's \<open>catch\<close>: the error is
  printed and the process exits with status 1.

  The runtime's evaluation of the reasons, for a truthy \<open>decision.reasons\<close>, is a
  parameter \<open>joined\<close>: \<open>Inr None\<close> when \<open>reasons.length > 0\<close> is false, \<open>Inr (Some s)\<close>
  when it is true and \<open>reasons.map((r) => r.message).join(", ")\<close> is \<open>s\<close>, \<open>Inl e\<close> when
  that evaluation throws.
\<close>

datatype cli_event =
    Log_success
  | Log_agent jsval
  | Log_policy jsval
  | Log_notes string
  | Log_failed
  | Log_reasons string
  | Log_reason_unknown
  | Log_details
  | Log_decision_id jsval
  | Log_allow bool
  | Log_expires jsval
  | Log_assurance jsval
  | Log_error js_error
  | Exit nat

definition reasons_text ::
  "(jsval \<Rightarrow> js_error + string option) \<Rightarrow> jsval \<Rightarrow> js_error + string option" where
  "reasons_text joined decision =
     (if truthy decision \<and> truthy (opt_prop decision ''reasons'')
      then joined (opt_prop decision ''reasons'')
      else Inr None)"

definition decision_details :: "jsval \<Rightarrow> cli_event list" where
  "decision_details decision =
     [Log_details,
      Log_decision_id (opt_prop decision ''decision_id''),
      Log_allow (truthy (opt_prop decision ''allow'')),
      Log_expires (opt_prop decision ''expires_in'')]
     @ (if truthy (opt_prop decision ''assurance_level'')
        then [Log_assurance (opt_prop decision ''assurance_level'')] else [])"

definition verify_report ::
  "(jsval \<Rightarrow> js_error + string option) \<Rightarrow> jsval \<Rightarrow> jsval \<Rightarrow> jsval \<Rightarrow> cli_event list" where
  "verify_report joined agentId policy result =
     (case cli_decision result of
        Inl e \<Rightarrow> [Log_error e, Exit 1]
      | Inr decision \<Rightarrow>
          (if truthy (cli_isApproved decision)
           then [Log_success, Log_agent agentId, Log_policy policy]
                @ (case reasons_text joined decision of
                     Inl e \<Rightarrow> [Log_error e, Exit 1]
                   | Inr None \<Rightarrow> []
                   | Inr (Some s) \<Rightarrow> [Log_notes s])
           else Log_failed #
                (case reasons_text joined decision of
                   Inl e \<Rightarrow> [Log_error e, Exit 1]
                 | Inr r \<Rightarrow>
                     (case r of Some s \<Rightarrow> [Log_reasons s] | None \<Rightarrow> [Log_reason_unknown])
                     @ (if truthy decision then decision_details decision else []))))"

section \<open>The policy test scripts (\<open>runMessagingPolicyTests\<close> and its data-export sibling)\<close>

text \<open>
  \<open>const decision = result.decision || result.data?.decision; const isApproved =
  decision && decision.allow;\<close>: the same two lines in both scripts, with the operands
  of \<open>||\<close> in the other order than in the CLI.
\<close>

definition script_decision :: "jsval \<Rightarrow> js_error + jsval" where
  "script_decision result =
     (case get_prop result ''decision'' of
        Inl e \<Rightarrow> Inl e
      | Inr b \<Rightarrow>
          (if truthy b then Inr b
           else (case get_prop result ''data'' of
                   Inl e \<Rightarrow> Inl e
                 | Inr d \<Rightarrow> Inr (opt_prop d ''decision''))))"

definition script_isApproved :: "jsval \<Rightarrow> jsval" where
  "script_isApproved decision = js_and decision (opt_prop decision ''allow'')"

section \<open>The Go hello-world example (\<open>printVerificationResult\<close>)\<close>

text \<open>
  The decoded response: pointers are options (\<open>nil\<close> is \<open>None\<close>). \<open>ExpiresIn\<close> is only
  printed, no arithmetic is done on it. The fields \<open>Decision\<close> of \<open>DecisionData\<close> and of
  \<open>VerifyResponse\<close> are \<open>dd_Decision\<close> and \<open>vr_Decision\<close>.
\<close>

record Reason =
  Message :: string

record Decision =
  Allow :: bool
  DecisionID :: string
  ExpiresIn :: int
  Reasons :: "Reason list"

record DecisionData =
  dd_Decision :: "Decision option"

record VerifyResponse =
  Data :: "DecisionData option"
  vr_Decision :: "Decision option"

text \<open>The output: the calls of \<open>fmt.Println\<close> and \<open>fmt.Printf\<close>, in order.\<close>

datatype go_arg = S string | D int

datatype go_print = Println string | Printf string "go_arg list"

definition select_decision :: "VerifyResponse \<Rightarrow> Decision option" where
  "select_decision result =
     (case Data result of
        Some d \<Rightarrow> (case dd_Decision d of Some x \<Rightarrow> Some x | None \<Rightarrow> vr_Decision result)
      | None \<Rightarrow> vr_Decision result)"

definition printVerificationResult :: "VerifyResponse \<Rightarrow> string \<Rightarrow> string \<Rightarrow> go_print list" where
  "printVerificationResult result agentID policy =
     (case select_decision result of
        None \<Rightarrow> [Println ''No decision found in response'']
      | Some decision \<Rightarrow>
          [Println ''Verification Result:'',
           Printf ''   Agent ID: %s\<newline>'' [S agentID],
           Printf ''   Policy: %s\<newline>'' [S policy],
           Printf ''   Decision ID: %s\<newline>'' [S (DecisionID decision)],
           Println (if Allow decision then ''   Status: ALLOWED'' else ''   Status: DENIED''),
           Printf ''   Expires In: %d seconds\<newline>'' [D (ExpiresIn decision)]]
          @ (if length (Reasons decision) > 0
             then Println ''   Reasons:''
                  # map (\<lambda>reason. Printf ''     - %s\<newline>'' [S (Message reason)]) (Reasons decision)
             else [])
          @ [Println [],
             Println (if Allow decision then ''Success! Agent verification passed.''
                      else ''Agent verification failed.'')])"

section \<open>Agent identifier extraction\<close>

subsection \<open>The Express template (templates/javascript-middleware/src/index.js)\<close>

text \<open>
  The parts of the Express request that \<open>extractAgentId\<close> reads. \<open>req.headers\<close> and
  \<open>req.query\<close> are always objects; \<open>req.body\<close> is whatever a body parser left there,
  \<open>undefined\<close> when none ran.
\<close>

record express_req =
  req_headers :: "(string \<times> jsval) list"
  req_query :: "(string \<times> jsval) list"
  req_body :: jsval

text \<open>
  The six sources, in the order of the array. Each is a closure that is called only when
  the loop reaches it; the list holds what each call yields, and the loop below stops at
  the first one that throws or passes the test \<open>agentId && typeof agentId === "string"\<close>.
  The last argument is \<open>options.agentId\<close>.
\<close>

definition sources :: "express_req \<Rightarrow> jsval \<Rightarrow> (js_error + jsval) list" where
  "sources req static_agentId =
     [get_prop (JObj (req_headers req)) ''x-agent-id'',
      get_prop (JObj (req_headers req)) ''x-aport-agent-id'',
      get_prop (JObj (req_query req)) ''agent_id'',
      get_prop (req_body req) ''agent_id'',
      get_prop (req_body req) ''agentId'',
      Inr static_agentId]"

fun first_agentId :: "(js_error + jsval) list \<Rightarrow> js_error + jsval" where
  "first_agentId [] = Inr JNull"
| "first_agentId (Inl e # rest) = Inl e"
| "first_agentId (Inr agentId # rest) =
     (if truthy agentId \<and> is_string agentId then Inr agentId else first_agentId rest)"

definition extractAgentId :: "express_req \<Rightarrow> jsval \<Rightarrow> js_error + jsval" where
  "extractAgentId req static_agentId = first_agentId (sources req static_agentId)"

subsection \<open>The Next.js template (the function \<open>middleware\<close>)\<close>

text \<open>
  \<open>request.headers.get\<close> and \<open>request.nextUrl.searchParams.get\<close> return a string or
  \<open>null\<close>. The request's body is part of the request but the middleware never reads it.
\<close>

record next_req =
  nx_headers :: "(string \<times> string) list"
  nx_searchParams :: "(string \<times> string) list"
  nx_body :: jsval

definition get_or_null :: "(string \<times> string) list \<Rightarrow> string \<Rightarrow> jsval" where
  "get_or_null kvs k = (case map_of kvs k of None \<Rightarrow> JNull | Some s \<Rightarrow> JStr s)"

definition middleware_agentId :: "next_req \<Rightarrow> jsval" where
  "middleware_agentId request =
     js_or (js_or (get_or_null (nx_headers request) ''x-agent-id'')
                  (get_or_null (nx_headers request) ''x-aport-agent-id''))
           (get_or_null (nx_searchParams request) ''agent_id'')"

section \<open>Test doubles\<close>

text \<open>
  Transport outcomes and clients for concrete runs: a 200 answer with a body, an HTTP
  error answer, no answer at all; a transport that always answers the same; the client of
  an environment without a key, and the client of the unit tests (\<open>APORT_API_KEY\<close> set to
  \<open>test-api-key\<close>).
\<close>

definition ok :: "jsval \<Rightarrow> outcome" where
  "ok body = Resolved \<lparr> status = 200, statusText = JStr ''OK'', data = body \<rparr>"

definition http_error :: "nat \<Rightarrow> string \<Rightarrow> jsval \<Rightarrow> outcome" where
  "http_error code reason body =
     Rejected \<lparr> fl_response = Some \<lparr> status = code, statusText = JStr reason, data = body \<rparr>,
                fl_message = JStr ''Request failed'' \<rparr>"

definition no_response :: "string \<Rightarrow> outcome" where
  "no_response msg = Rejected \<lparr> fl_response = None, fl_message = JStr msg \<rparr>"

definition always :: "outcome \<Rightarrow> transport" where
  "always out = (\<lambda>hist rq. out)"

definition anonymous_client :: client where
  "anonymous_client =
     projr (new_APortClient \<lparr> opt_apiKey = JUndef, opt_baseUrl = JUndef \<rparr>
                            \<lparr> APORT_API_KEY = None, APORT_BASE_URL = None \<rparr>)"

definition test_client :: client where
  "test_client =
     projr (new_APortClient \<lparr> opt_apiKey = JUndef, opt_baseUrl = JUndef \<rparr>
                            \<lparr> APORT_API_KEY = Some ''test-api-key'', APORT_BASE_URL = None \<rparr>)"

text \<open>
  Two services for \<open>getPassport\<close>, both holding the passport of \<open>agt_1\<close> behind the
  direct lookup: one answers the probe with a 200 that carries no \<open>agent_id\<close>, the other
  answers the probe with a 404.
\<close>

definition passport_double :: transport where
  "passport_double = (\<lambda>hist rq.
     if rq_url rq = Interp ''/api/verify/'' (JStr ''agt_1'')
     then ok (JObj [(''verified'', JBool False)])
     else ok (JObj [(''agent_id'', JStr ''agt_1''), (''name'', JStr ''Test Agent'')]))"

definition fallback_double :: transport where
  "fallback_double = (\<lambda>hist rq.
     if rq_url rq = Interp ''/api/verify/'' (JStr ''agt_1'')
     then http_error 404 ''Not Found'' (JObj [(''message'', JStr ''Agent not found'')])
     else ok (JObj [(''agent_id'', JStr ''agt_1''), (''name'', JStr ''Test Agent'')]))"

text \<open>
  For the reports of the CLI: the runtime's evaluation of \<open>decision.reasons\<close> where its
  length is not greater than 0, as for the empty array. The runs below apply it to no
  other value.
\<close>

definition no_reasons :: "jsval \<Rightarrow> js_error + string option" where
  "no_reasons reasons = Inr None"

section \<open>The specification's notions\<close>

text \<open>
  The two envelope shapes of the specification, around a decision \<open>d\<close>: shape A is
  \<open>{data: {decision: d}}\<close>, shape B is \<open>{decision: d}\<close>.
\<close>

definition shape_A :: "jsval \<Rightarrow> jsval" where
  "shape_A d = JObj [(''data'', JObj [(''decision'', d)])]"

definition shape_B :: "jsval \<Rightarrow> jsval" where
  "shape_B d = JObj [(''decision'', d)]"

text \<open>
  The resolver in the specification's words: of the candidate values, in their fixed order,
  the first that is a non-empty string; \<open>null\<close> when there is none.
\<close>

fun nonempty_string :: "jsval \<Rightarrow> bool" where
  "nonempty_string (JStr s) = (s \<noteq> [])"
| "nonempty_string v = False"

definition first_nonempty_string :: "jsval list \<Rightarrow> jsval" where
  "first_nonempty_string vs = (case find nonempty_string vs of Some v \<Rightarrow> v | None \<Rightarrow> JNull)"

section \<open>Auxiliary facts\<close>

lemma get_prop_opt:
  "v \<noteq> JUndef \<Longrightarrow> v \<noteq> JNull \<Longrightarrow> get_prop v k = Inr (opt_prop v k)"
  by (cases v) simp_all

lemma truthy_opt_prop: "truthy (opt_prop v k) \<Longrightarrow> truthy v"
  by (cases v) simp_all

lemma truthy_string: "(truthy v \<and> is_string v) = nonempty_string v"
  by (cases v) simp_all

lemma first_agentId_values:
  "first_agentId (map Inr vs) = Inr (first_nonempty_string vs)"
  by (induction vs) (simp_all add: first_nonempty_string_def truthy_string)

lemma perform_headers:
  "\<exists>new. snd (perform c net hist call) = hist @ new
         \<and> list_all (\<lambda>rq. rq_headers rq = headers c) new"
proof (cases call)
  case (GetPassport agentId)
  then show ?thesis
    by (auto simp add: getPassport_def Let_def probe_request_def passport_request_def
        split: outcome.splits)
next
  case (CreatePassport d)
  then show ?thesis
    by (simp add: createPassport_def Let_def issue_request_def)
qed (simp_all add: verify_def verifyPolicy_def verify_request_def suspendPassport_def
      suspend_request_def getPolicyPack_def listPolicyPacks_def Let_def)

lemma cli_decision_not_nullish:
  assumes "result \<noteq> JUndef" and "result \<noteq> JNull"
  shows "cli_decision result =
           Inr (if truthy (opt_prop (opt_prop result ''data'') ''decision'')
                then opt_prop (opt_prop result ''data'') ''decision''
                else opt_prop result ''decision'')"
  using assms by (simp add: cli_decision_def get_prop_opt)

section \<open>The decision parser (C1, C2, C3)\<close>

text \<open>
  C1, as stated, fails on the code. No path fails when a body holds no decision: for the
  body \<open>{}\<close> the CLI's verify command prints "Agent verification failed" and "Reason:
  Unknown" and ends normally, and the Go example prints "No decision found in response"
  and returns. And shape A is not always checked first: the policy test scripts read the
  top-level \<open>decision\<close> first, so for a body holding both they take the top-level one.
\<close>

theorem decision_fallback_counterexample:
  "verify_report no_reasons (JStr ''agt_1'') (JStr ''payments.refund.v1'') (JObj [])
     = [Log_failed, Log_reason_unknown]
   \<and> printVerificationResult \<lparr> Data = None, vr_Decision = None \<rparr> ''agt_1'' ''payments.refund.v1''
     = [Println ''No decision found in response'']
   \<and> script_decision (JObj [(''data'', JObj [(''decision'', JObj [(''allow'', JBool True)])]),
                           (''decision'', JObj [(''allow'', JBool False)])])
     = Inr (JObj [(''allow'', JBool False)])"
  by (simp add: verify_report_def cli_decision_def
      cli_isApproved_def js_and_def reasons_text_def printVerificationResult_def select_decision_def
      script_decision_def)

text \<open>
  C1, amended. In the CLI's verify command, for every body that is not \<open>null\<close> or
  \<open>undefined\<close>, the decision is \<open>data.decision\<close> when that is truthy and the top-level
  \<open>decision\<close> otherwise; when neither is truthy nothing fails: the command prints "Agent
  verification failed" and "Reason: Unknown" and ends normally. The Go example takes
  \<open>Data.Decision\<close> when \<open>Data\<close> and it are not nil, the top-level \<open>Decision\<close> otherwise,
  and prints "No decision found in response" when it has none.
\<close>

theorem decision_ordered_fallback:
  assumes "result \<noteq> JUndef" and "result \<noteq> JNull"
  shows "cli_decision result =
           Inr (if truthy (opt_prop (opt_prop result ''data'') ''decision'')
                then opt_prop (opt_prop result ''data'') ''decision''
                else opt_prop result ''decision'')
         \<and> (\<not> truthy (opt_prop (opt_prop result ''data'') ''decision'')
              \<and> \<not> truthy (opt_prop result ''decision'')
             \<longrightarrow> verify_report joined agentId policy result = [Log_failed, Log_reason_unknown])
         \<and> select_decision \<lparr> Data = Some \<lparr> dd_Decision = Some a \<rparr>, vr_Decision = b \<rparr> = Some a
         \<and> select_decision \<lparr> Data = Some \<lparr> dd_Decision = None \<rparr>, vr_Decision = b \<rparr> = b
         \<and> select_decision \<lparr> Data = None, vr_Decision = b \<rparr> = b
         \<and> (select_decision resp = None \<longrightarrow>
              printVerificationResult resp agentID pol = [Println ''No decision found in response''])"
proof -
  note d = cli_decision_not_nullish [OF assms]
  have r: "\<not> truthy (opt_prop (opt_prop result ''data'') ''decision'')
              \<and> \<not> truthy (opt_prop result ''decision'')
             \<longrightarrow> verify_report joined agentId policy result = [Log_failed, Log_reason_unknown]"
    by (simp add: verify_report_def d cli_isApproved_def js_and_def reasons_text_def)
  show ?thesis
    using d r by (simp add: select_decision_def printVerificationResult_def)
qed

text \<open>
  C1, the amended claim at concrete bodies: one holding both shapes (shape A is taken),
  one whose \<open>data\<close> holds no decision (the top-level one is taken), one holding no decision
  at all, and a Go response without a decision.
\<close>

theorem decision_ordered_fallback_witness:
  "cli_decision (JObj [(''data'', JObj [(''decision'', JObj [(''allow'', JBool True)])]),
                       (''decision'', JObj [(''allow'', JBool False)])])
     = Inr (JObj [(''allow'', JBool True)])
   \<and> cli_decision (JObj [(''data'', JObj []), (''decision'', JObj [(''allow'', JBool False)])])
     = Inr (JObj [(''allow'', JBool False)])
   \<and> verify_report no_reasons (JStr ''agt_1'') (JStr ''payments.refund.v1'')
        (JObj [(''verified'', JBool True)])
     = [Log_failed, Log_reason_unknown]
   \<and> printVerificationResult \<lparr> Data = Some \<lparr> dd_Decision = None \<rparr>, vr_Decision = None \<rparr>
        ''agt_1'' ''payments.refund.v1''
     = [Println ''No decision found in response'']"
  using
    decision_ordered_fallback [of "JObj [(''data'', JObj [(''decision'', JObj [(''allow'', JBool True)])]),
                       (''decision'', JObj [(''allow'', JBool False)])]"]
    decision_ordered_fallback [of "JObj [(''data'', JObj []), (''decision'', JObj [(''allow'', JBool False)])]"]
    decision_ordered_fallback [of "JObj [(''verified'', JBool True)]" no_reasons
      "JStr ''agt_1''" "JStr ''payments.refund.v1''" _ None
      "\<lparr> Data = Some \<lparr> dd_Decision = None \<rparr>, vr_Decision = None \<rparr>" "''agt_1''" "''payments.refund.v1''"]
  by simp

text \<open>
  C2, as stated, fails on the code. For a 200 answer whose body holds no decision, and for
  one whose decision has no \<open>allow\<close>, \<open>verify\<close> returns the body; and the CLI's verify
  command reports the decision without \<open>allow\<close> as a refusal ("Agent verification
  failed", "Reason: Unknown", "Allow: no").
\<close>

theorem malformed_response_counterexample:
  "fst (verify anonymous_client (always (ok (JObj [(''verified'', JBool True)]))) []
          (JStr ''payments.refund.v1'') (JStr ''agt_1'') (JObj [(''amount'', JNum 50)]))
     = Inr (JObj [(''verified'', JBool True)])
   \<and> fst (verify anonymous_client (always (ok (JObj [(''decision'', JObj [])]))) []
          (JStr ''payments.refund.v1'') (JStr ''agt_1'') (JObj [(''amount'', JNum 50)]))
     = Inr (JObj [(''decision'', JObj [])])
   \<and> verify_report no_reasons (JStr ''agt_1'') (JStr ''payments.refund.v1'')
        (JObj [(''decision'', JObj [])])
     = [Log_failed, Log_reason_unknown, Log_details, Log_decision_id JUndef, Log_allow False,
        Log_expires JUndef]"
  by (simp add: verify_def always_def ok_def verify_report_def cli_decision_def
      cli_isApproved_def js_and_def reasons_text_def decision_details_def)

text \<open>
  C2, amended. Whatever the body of a 200 answer holds, \<open>verify\<close> returns it as it is and
  does not fail; and whenever the decision the CLI's verify command selects has no truthy
  \<open>allow\<close> (in particular when there is no decision, or no \<open>allow\<close> in it), the command
  reports "Agent verification failed".
\<close>

theorem verify_returns_body_unparsed:
  "(net hist (verify_request c policy agentId ctx) = Resolved r
      \<longrightarrow> fst (verify c net hist policy agentId ctx) = Inr (data r))
   \<and> (cli_decision result = Inr decision \<and> \<not> truthy (opt_prop decision ''allow'')
      \<longrightarrow> (\<exists>rest. verify_report joined agentId policy result = Log_failed # rest))"
  by (simp add: verify_def verify_report_def cli_isApproved_def js_and_def)

text \<open>
  C2, the amended claim at a 200 answer whose decision holds reasons but no \<open>allow\<close>.
\<close>

theorem verify_returns_body_unparsed_witness:
  "fst (verify test_client (always (ok (JObj [(''decision'', JObj [(''reasons'', JArr [])])]))) []
          (JStr ''payments.refund.v1'') (JStr ''agt_1'') JUndef)
     = Inr (JObj [(''decision'', JObj [(''reasons'', JArr [])])])
   \<and> (\<exists>rest. verify_report no_reasons (JStr ''agt_1'') (JStr ''payments.refund.v1'')
                (JObj [(''decision'', JObj [(''reasons'', JArr [])])]) = Log_failed # rest)"
  using verify_returns_body_unparsed
    [where net = "always (ok (JObj [(''decision'', JObj [(''reasons'', JArr [])])]))"
       and hist = "[]" and c = test_client
       and policy = "JStr ''payments.refund.v1''" and agentId = "JStr ''agt_1''" and ctx = JUndef
       and r = "\<lparr> status = 200, statusText = JStr ''OK'',
                  data = JObj [(''decision'', JObj [(''reasons'', JArr [])])] \<rparr>"
       and result = "JObj [(''decision'', JObj [(''reasons'', JArr [])])]"
       and decision = "JObj [(''reasons'', JArr [])]"
       and joined = no_reasons]
  by (simp add: always_def ok_def cli_decision_def)

text \<open>
  C3, as stated, fails on the code: \<open>verify\<close> does not normalise. For the same decision,
  sent once in shape A and once in shape B, it returns two different values (each body as
  it came).
\<close>

theorem envelope_shape_counterexample:
  "fst (verify anonymous_client
          (always (ok (shape_A (JObj [(''allow'', JBool True), (''decision_id'', JStr ''dec_1''),
                                      (''expires_in'', JNum 3600), (''reasons'', JArr [])])))) []
          (JStr ''payments.refund.v1'') (JStr ''agt_1'') (JObj [(''amount'', JNum 50)]))
   \<noteq> fst (verify anonymous_client
          (always (ok (shape_B (JObj [(''allow'', JBool True), (''decision_id'', JStr ''dec_1''),
                                      (''expires_in'', JNum 3600), (''reasons'', JArr [])])))) []
          (JStr ''payments.refund.v1'') (JStr ''agt_1'') (JObj [(''amount'', JNum 50)]))"
  by (simp add: verify_def always_def ok_def shape_A_def shape_B_def)

text \<open>
  C3, amended. \<open>verify\<close> returns a shape-A body and a shape-B body each as it came; the
  envelope is resolved by the callers. For every decision object the CLI's verify command
  selects that same object from either shape; for every decision value at all it prints
  the same report for both shapes; and the Go example prints the same lines for a
  response holding a decision under \<open>Data\<close> and one holding it at the top level.
\<close>

theorem envelope_shape_independence:
  "fst (verify c (always (ok (shape_A d))) hist policy agentId ctx) = Inr (shape_A d)
   \<and> fst (verify c (always (ok (shape_B d))) hist policy agentId ctx) = Inr (shape_B d)
   \<and> cli_decision (shape_A (JObj kvs)) = Inr (JObj kvs)
   \<and> cli_decision (shape_B (JObj kvs)) = Inr (JObj kvs)
   \<and> verify_report joined agentId policy (shape_A d) = verify_report joined agentId policy (shape_B d)
   \<and> printVerificationResult \<lparr> Data = Some \<lparr> dd_Decision = Some g \<rparr>, vr_Decision = None \<rparr> a p
     = printVerificationResult \<lparr> Data = None, vr_Decision = Some g \<rparr> a p"
proof -
  have "verify_report joined agentId policy (shape_A d) = verify_report joined agentId policy (shape_B d)"
    by (simp add: verify_report_def cli_decision_def shape_A_def shape_B_def cli_isApproved_def
        js_and_def reasons_text_def)
  then show ?thesis
    by (simp add: verify_def always_def ok_def cli_decision_def shape_A_def shape_B_def
        printVerificationResult_def select_decision_def)
qed

section \<open>The request builder (C4) and the two verify methods (C9)\<close>

text \<open>
  C4, as stated, fails on the code: \<open>verify\<close> validates nothing. Called with an empty
  policy and an empty agent identifier it sends the POST (to \<open>/api/verify/policy/\<close>) and
  returns what the service answers; called with a policy that is \<open>undefined\<close> and a number
  as agent identifier it makes one network call as well.
\<close>

theorem request_validation_counterexample:
  "verify anonymous_client (always (ok (shape_B (JObj [(''allow'', JBool False)])))) []
      (JStr []) (JStr []) JUndef
     = (Inr (shape_B (JObj [(''allow'', JBool False)])),
        [\<lparr> rq_method = POST, rq_url = Interp ''/api/verify/policy/'' (JStr []),
           rq_body = JObj [(''context'', JObj [(''agent_id'', JStr []), (''policy_id'', JStr []),
                                               (''context'', JObj [])])],
           rq_params = [], rq_headers = [(''Content-Type'', Lit ''application/json'')] \<rparr>])
   \<and> length (snd (verify anonymous_client (always (no_response ''timeout of 10000ms exceeded'')) []
                    JUndef (JNum 7) JUndef)) = 1"
  by (simp add: verify_def verify_request_def always_def ok_def no_response_def anonymous_client_def
      new_APortClient_def Let_def js_or_def env_value_def default_param_def)

text \<open>
  C4, amended. \<open>verify\<close> makes no local check of the policy or the agent identifier: for
  every agent identifier and every policy whose conversion to a string does not throw
  (every string, the empty one included, every number and boolean, \<open>null\<close>, \<open>undefined\<close>,
  and the objects and arrays that convert), it makes exactly one network call, a POST to
  \<open>/api/verify/policy/${policy}\<close>, and its result is decided by the answer to that call
  alone.
\<close>

theorem verify_sends_one_request:
  "\<not> conversion_throws policy \<Longrightarrow>
   snd (verify c net hist policy agentId ctx) = hist @ [verify_request c policy agentId ctx]
   \<and> length (snd (verify c net hist policy agentId ctx)) = Suc (length hist)
   \<and> rq_method (verify_request c policy agentId ctx) = POST
   \<and> rq_url (verify_request c policy agentId ctx) = Interp ''/api/verify/policy/'' policy
   \<and> fst (verify c net hist policy agentId ctx)
     = (case net hist (verify_request c policy agentId ctx) of
          Resolved r \<Rightarrow> Inr (data r)
        | Rejected e \<Rightarrow> Inl (rethrow e))"
  by (simp add: verify_def verify_request_def Let_def)

text \<open>
  C4, the amended claim at an empty policy with an empty agent identifier (the service's
  answer is returned), and at a policy that is \<open>undefined\<close> with a number as agent
  identifier and no answer from the network (one call is made, a "Network Error" is
  thrown).
\<close>

theorem verify_sends_one_request_witness:
  "\<not> conversion_throws (JStr []) \<and> \<not> conversion_throws JUndef
   \<and> snd (verify anonymous_client (always (ok (shape_B (JObj [(''allow'', JBool False)])))) []
           (JStr []) (JStr []) JUndef)
     = [verify_request anonymous_client (JStr []) (JStr []) JUndef]
   \<and> fst (verify anonymous_client (always (ok (shape_B (JObj [(''allow'', JBool False)])))) []
           (JStr []) (JStr []) JUndef)
     = Inr (shape_B (JObj [(''allow'', JBool False)]))
   \<and> snd (verify anonymous_client (always (no_response ''timeout of 10000ms exceeded'')) []
           JUndef (JNum 7) JUndef)
     = [verify_request anonymous_client JUndef (JNum 7) JUndef]
   \<and> fst (verify anonymous_client (always (no_response ''timeout of 10000ms exceeded'')) []
           JUndef (JNum 7) JUndef)
     = Inl (Error (Interp ''Network Error: '' (JStr ''timeout of 10000ms exceeded'')))"
  using
    verify_sends_one_request [where policy = "JStr []" and agentId = "JStr []" and ctx = JUndef
      and c = anonymous_client and hist = "[]"
      and net = "always (ok (shape_B (JObj [(''allow'', JBool False)])))"]
    verify_sends_one_request [where policy = JUndef and agentId = "JNum 7" and ctx = JUndef
      and c = anonymous_client and hist = "[]"
      and net = "always (no_response ''timeout of 10000ms exceeded'')"]
  by (simp add: always_def ok_def no_response_def rethrow_def)

text \<open>
  C9. For every policy, agent identifier and context, every client and every behaviour of
  the transport (and every request log so far), \<open>verifyPolicy\<close> gives the same result or
  error as \<open>verify\<close> and makes the same request.
\<close>

theorem verifyPolicy_eq_verify:
  "verifyPolicy c net hist policy agentId ctx = verify c net hist policy agentId ctx"
  by (simp add: verifyPolicy_def verify_def verify_request_def)

section \<open>The agent identifier resolver (C5)\<close>

text \<open>
  C5, as stated, fails on the code. In the Express template, a request whose body no
  parser has filled in (\<open>req.body\<close> is \<open>undefined\<close>) and that carries no identifier in
  its headers or query makes \<open>extractAgentId\<close> throw a \<open>TypeError\<close> at the body source,
  although a static identifier is configured. And the Next.js middleware reads headers and
  query only: a request that carries its identifier in the body field \<open>agentId\<close> has none
  for it.
\<close>

theorem agent_id_resolver_counterexample:
  "extractAgentId \<lparr> req_headers = [], req_query = [], req_body = JUndef \<rparr> (JStr ''agt_static'')
     = Inl TypeError
   \<and> middleware_agentId \<lparr> nx_headers = [], nx_searchParams = [],
                           nx_body = JObj [(''agentId'', JStr ''agt_body'')] \<rparr>
     = JNull"
  by (simp add: extractAgentId_def sources_def middleware_agentId_def get_or_null_def js_or_def)

text \<open>
  C5, amended. In the Express template, for every request whose \<open>req.body\<close> is not
  \<open>undefined\<close> or \<open>null\<close>, \<open>extractAgentId\<close> returns the first non-empty string among
  header \<open>x-agent-id\<close>, header \<open>x-aport-agent-id\<close>, query parameter \<open>agent_id\<close>, body
  field \<open>agent_id\<close>, body field \<open>agentId\<close> and the static \<open>options.agentId\<close>, in this
  order, and \<open>null\<close> when there is none; and for every request at all, a non-empty
  string in one of the two headers or the query parameter is returned, the first in that
  order. The Next.js middleware takes the first non-empty string among header
  \<open>x-agent-id\<close>, header \<open>x-aport-agent-id\<close> and query parameter \<open>agent_id\<close>, and has no
  identifier (a falsy value) when there is none.
\<close>

theorem extractAgentId_priority:
  "(req_body req \<noteq> JUndef \<and> req_body req \<noteq> JNull \<longrightarrow>
      extractAgentId req static_agentId =
        Inr (first_nonempty_string
              [opt_prop (JObj (req_headers req)) ''x-agent-id'',
               opt_prop (JObj (req_headers req)) ''x-aport-agent-id'',
               opt_prop (JObj (req_query req)) ''agent_id'',
               opt_prop (req_body req) ''agent_id'',
               opt_prop (req_body req) ''agentId'',
               static_agentId]))
   \<and> (first_nonempty_string
              [opt_prop (JObj (req_headers req)) ''x-agent-id'',
               opt_prop (JObj (req_headers req)) ''x-aport-agent-id'',
               opt_prop (JObj (req_query req)) ''agent_id''] \<noteq> JNull \<longrightarrow>
      extractAgentId req static_agentId =
        Inr (first_nonempty_string
              [opt_prop (JObj (req_headers req)) ''x-agent-id'',
               opt_prop (JObj (req_headers req)) ''x-aport-agent-id'',
               opt_prop (JObj (req_query req)) ''agent_id'']))
   \<and> (if truthy (middleware_agentId request) then middleware_agentId request else JNull)
       = first_nonempty_string
           [get_or_null (nx_headers request) ''x-agent-id'',
            get_or_null (nx_headers request) ''x-aport-agent-id'',
            get_or_null (nx_searchParams request) ''agent_id'']"
proof -
  let ?h1 = "opt_prop (JObj (req_headers req)) ''x-agent-id''"
  let ?h2 = "opt_prop (JObj (req_headers req)) ''x-aport-agent-id''"
  let ?q = "opt_prop (JObj (req_query req)) ''agent_id''"
  have a: "req_body req \<noteq> JUndef \<and> req_body req \<noteq> JNull \<longrightarrow>
      extractAgentId req static_agentId =
        Inr (first_nonempty_string [?h1, ?h2, ?q, opt_prop (req_body req) ''agent_id'',
               opt_prop (req_body req) ''agentId'', static_agentId])"
  proof
    assume b: "req_body req \<noteq> JUndef \<and> req_body req \<noteq> JNull"
    have "sources req static_agentId =
            map Inr [?h1, ?h2, ?q, opt_prop (req_body req) ''agent_id'',
               opt_prop (req_body req) ''agentId'', static_agentId]"
      using b by (simp add: sources_def get_prop_opt)
    then show "extractAgentId req static_agentId =
        Inr (first_nonempty_string [?h1, ?h2, ?q, opt_prop (req_body req) ''agent_id'',
               opt_prop (req_body req) ''agentId'', static_agentId])"
      unfolding extractAgentId_def by (simp only: first_agentId_values)
  qed
  have b: "first_nonempty_string [?h1, ?h2, ?q] \<noteq> JNull \<longrightarrow>
      extractAgentId req static_agentId = Inr (first_nonempty_string [?h1, ?h2, ?q])"
    by (simp add: extractAgentId_def sources_def first_nonempty_string_def truthy_string
        split: if_splits)
  have c: "(if truthy (middleware_agentId request) then middleware_agentId request else JNull)
       = first_nonempty_string
           [get_or_null (nx_headers request) ''x-agent-id'',
            get_or_null (nx_headers request) ''x-aport-agent-id'',
            get_or_null (nx_searchParams request) ''agent_id'']"
    by (simp add: middleware_agentId_def js_or_def get_or_null_def first_nonempty_string_def
        split: option.splits)
  show ?thesis using a b c by blast
qed

text \<open>
  C5, the amended claim at concrete requests: header, query and body all carry different
  identifiers (the header wins); only the body field \<open>agentId\<close> is present (it is used);
  the query parameter is empty and the body field is a number (\<open>null\<close>); the body is
  \<open>undefined\<close> and the second header carries the identifier (it is returned).
\<close>

theorem extractAgentId_priority_witness:
  "extractAgentId \<lparr> req_headers = [(''x-agent-id'', JStr ''agt_header'')],
                    req_query = [(''agent_id'', JStr ''agt_query'')],
                    req_body = JObj [(''agent_id'', JStr ''agt_body'')] \<rparr> (JStr ''agt_static'')
     = Inr (JStr ''agt_header'')
   \<and> extractAgentId \<lparr> req_headers = [], req_query = [],
                      req_body = JObj [(''agentId'', JStr ''agt_camel'')] \<rparr> JUndef
     = Inr (JStr ''agt_camel'')
   \<and> extractAgentId \<lparr> req_headers = [], req_query = [(''agent_id'', JStr [])],
                      req_body = JObj [(''agent_id'', JNum 7)] \<rparr> JUndef
     = Inr JNull
   \<and> extractAgentId \<lparr> req_headers = [(''x-aport-agent-id'', JStr ''agt_h2'')], req_query = [],
                      req_body = JUndef \<rparr> JUndef
     = Inr (JStr ''agt_h2'')"
  using
    extractAgentId_priority [where req = "\<lparr> req_headers = [(''x-agent-id'', JStr ''agt_header'')],
                    req_query = [(''agent_id'', JStr ''agt_query'')],
                    req_body = JObj [(''agent_id'', JStr ''agt_body'')] \<rparr>"
        and static_agentId = "JStr ''agt_static''"]
    extractAgentId_priority [where req = "\<lparr> req_headers = [], req_query = [],
                      req_body = JObj [(''agentId'', JStr ''agt_camel'')] \<rparr>"
        and static_agentId = JUndef]
    extractAgentId_priority [where req = "\<lparr> req_headers = [], req_query = [(''agent_id'', JStr [])],
                      req_body = JObj [(''agent_id'', JNum 7)] \<rparr>"
        and static_agentId = JUndef]
    extractAgentId_priority [where req = "\<lparr> req_headers = [(''x-aport-agent-id'', JStr ''agt_h2'')],
                      req_query = [], req_body = JUndef \<rparr>"
        and static_agentId = JUndef]
  by (simp add: first_nonempty_string_def)

section \<open>The errors of verify (C6)\<close>




section \<open>Passports and credentials (C7, C8, C10)\<close>

text \<open>
  C7, as stated, fails on the code. With a credential configured and a service that holds
  the passport behind the direct lookup, a probe answered by a 200 without \<open>agent_id\<close>
  makes \<open>getPassport\<close> fail with "Unable to retrieve passport information" after that one
  request: there is no fallback. Without a credential the same probe answer gives the
  same error, not the one that asks for an API key.
\<close>

theorem getPassport_counterexample:
  "getPassport test_client passport_double [] (JStr ''agt_1'')
     = (Inl (Error (Lit ''Unable to retrieve passport information'')),
        [probe_request test_client (JStr ''agt_1'')])
   \<and> truthy (apiKey test_client)
   \<and> passport_double [probe_request test_client (JStr ''agt_1'')]
        (passport_request test_client (JStr ''agt_1''))
     = ok (JObj [(''agent_id'', JStr ''agt_1''), (''name'', JStr ''Test Agent'')])
   \<and> fst (getPassport anonymous_client passport_double [] (JStr ''agt_1''))
     = Inl (Error (Lit ''Unable to retrieve passport information''))"
  by (simp add: getPassport_def passport_double_def probe_request_def passport_request_def
      ok_def js_and_def test_client_def anonymous_client_def new_APortClient_def Let_def js_or_def
      env_value_def)

text \<open>
  C7, amended. \<open>getPassport\<close> first sends the probe, a \<open>GET /api/verify/${agentId}\<close> with
  the fixed policy pack \<open>code.repository.merge.v1\<close>, carrying the client's headers. If the
  probe resolves with a body that has a truthy \<open>agent_id\<close>, that body is returned. If it
  resolves with any other body, \<open>getPassport\<close> fails with "Unable to retrieve passport
  information" and makes no other request. If the probe is rejected and no credential is
  configured, it fails with "API key required for passport retrieval ..." and makes no
  other request. If the probe is rejected and a credential is configured, it sends the
  direct lookup \<open>GET /api/passports/${agentId}\<close> and returns its body or rethrows its
  failure.
\<close>

theorem getPassport_paths:
  "(net hist (probe_request c agentId) = Resolved r \<and> truthy (opt_prop (data r) ''agent_id'') \<longrightarrow>
      getPassport c net hist agentId = (Inr (data r), hist @ [probe_request c agentId]))
   \<and> (net hist (probe_request c agentId) = Resolved r \<and> \<not> truthy (opt_prop (data r) ''agent_id'') \<longrightarrow>
      getPassport c net hist agentId
        = (Inl (Error (Lit ''Unable to retrieve passport information'')),
           hist @ [probe_request c agentId]))
   \<and> (net hist (probe_request c agentId) = Rejected e \<and> \<not> truthy (apiKey c) \<longrightarrow>
      getPassport c net hist agentId
        = (Inl (Error (Lit
             ''API key required for passport retrieval. Set APORT_API_KEY environment variable or use --api-key option.'')),
           hist @ [probe_request c agentId]))
   \<and> (net hist (probe_request c agentId) = Rejected e \<and> truthy (apiKey c) \<longrightarrow>
      getPassport c net hist agentId
        = (case net (hist @ [probe_request c agentId]) (passport_request c agentId) of
             Resolved p \<Rightarrow> Inr (data p)
           | Rejected pe \<Rightarrow> Inl (rethrow pe),
           hist @ [probe_request c agentId, passport_request c agentId]))
   \<and> rq_params (probe_request c agentId)
       = [(''policy_pack'', JStr ''code.repository.merge.v1''), (''context'', JStr ''{}'')]
   \<and> rq_headers (probe_request c agentId) = headers c"
  by (auto simp add: getPassport_def Let_def js_and_def probe_request_def dest: truthy_opt_prop)

text \<open>
  C7, the amended claim on its four paths: the probe answers with the passport (no
  credential needed); the probe answers 200 without \<open>agent_id\<close> (a credential is
  configured, no fallback); the probe answers 404 and no credential is configured; the
  probe answers 404 and a credential is configured (the direct lookup gives the passport).
\<close>

theorem getPassport_paths_witness:
  "getPassport anonymous_client
      (always (ok (JObj [(''agent_id'', JStr ''agt_1''), (''name'', JStr ''Test Agent'')]))) []
      (JStr ''agt_1'')
     = (Inr (JObj [(''agent_id'', JStr ''agt_1''), (''name'', JStr ''Test Agent'')]),
        [probe_request anonymous_client (JStr ''agt_1'')])
   \<and> getPassport test_client passport_double [] (JStr ''agt_1'')
     = (Inl (Error (Lit ''Unable to retrieve passport information'')),
        [probe_request test_client (JStr ''agt_1'')])
   \<and> getPassport anonymous_client fallback_double [] (JStr ''agt_1'')
     = (Inl (Error (Lit
          ''API key required for passport retrieval. Set APORT_API_KEY environment variable or use --api-key option.'')),
        [probe_request anonymous_client (JStr ''agt_1'')])
   \<and> getPassport test_client fallback_double [] (JStr ''agt_1'')
     = (Inr (JObj [(''agent_id'', JStr ''agt_1''), (''name'', JStr ''Test Agent'')]),
        [probe_request test_client (JStr ''agt_1''), passport_request test_client (JStr ''agt_1'')])"
  using
    getPassport_paths [where net = "always (ok (JObj [(''agent_id'', JStr ''agt_1''),
                                                     (''name'', JStr ''Test Agent'')]))"
      and hist = "[]" and c = anonymous_client and agentId = "JStr ''agt_1''"
      and r = "\<lparr> status = 200, statusText = JStr ''OK'',
                 data = JObj [(''agent_id'', JStr ''agt_1''), (''name'', JStr ''Test Agent'')] \<rparr>"]
    getPassport_paths [where net = passport_double
      and hist = "[]" and c = test_client and agentId = "JStr ''agt_1''"
      and r = "\<lparr> status = 200, statusText = JStr ''OK'',
                 data = JObj [(''verified'', JBool False)] \<rparr>"]
    getPassport_paths [where net = fallback_double
      and hist = "[]" and c = anonymous_client and agentId = "JStr ''agt_1''"
      and e = "\<lparr> fl_response = Some \<lparr> status = 404, statusText = JStr ''Not Found'',
                  data = JObj [(''message'', JStr ''Agent not found'')] \<rparr>,
                fl_message = JStr ''Request failed'' \<rparr>"]
    getPassport_paths [where net = fallback_double
      and hist = "[]" and c = test_client and agentId = "JStr ''agt_1''"
      and e = "\<lparr> fl_response = Some \<lparr> status = 404, statusText = JStr ''Not Found'',
                  data = JObj [(''message'', JStr ''Agent not found'')] \<rparr>,
                fl_message = JStr ''Request failed'' \<rparr>"]
  by (simp add: always_def ok_def http_error_def passport_double_def fallback_double_def
      probe_request_def passport_request_def test_client_def anonymous_client_def
      new_APortClient_def Let_def js_or_def env_value_def)

text \<open>
  The credential checks of the two passport-mutating methods, for every client and every
  transport. \<open>createPassport\<close> without a truthy \<open>apiKey\<close> fails with "API key required
  for passport creation ..." and makes no network call; with one it sends one POST to
  \<open>/api/issue\<close>. \<open>suspendPassport\<close> has no such check: it always sends one POST to
  \<open>/api/suspend\<close>, with the client's headers.
\<close>

lemma createPassport_requires_credential:
  "(\<not> truthy (apiKey c) \<longrightarrow>
      createPassport c net hist passportData
        = (Inl (Error (Lit
             ''API key required for passport creation. Set APORT_API_KEY environment variable or use --api-key option.'')),
           hist))
   \<and> (truthy (apiKey c) \<longrightarrow>
      createPassport c net hist passportData
        = (case net hist (issue_request c passportData) of
             Resolved r \<Rightarrow> Inr (data r)
           | Rejected e \<Rightarrow> Inl (rethrow e),
           hist @ [issue_request c passportData]))"
  by (simp add: createPassport_def Let_def)

lemma suspendPassport_sends_request:
  "suspendPassport c net hist agentId reason
        = (case net hist (suspend_request c agentId reason) of
             Resolved r \<Rightarrow> Inr (data r)
           | Rejected e \<Rightarrow> Inl (rethrow e),
           hist @ [suspend_request c agentId reason])
   \<and> rq_headers (suspend_request c agentId reason) = headers c"
  by (simp add: suspendPassport_def Let_def suspend_request_def)

text \<open>
  C8. Both passport-mutating operations are to require a configured credential. On a
  client without a key, \<open>createPassport\<close> does: it fails with "API key required for
  passport creation ..." and makes no network call. \<open>suspendPassport\<close> on the same client
  does not: it sends the POST to \<open>/api/suspend\<close>, without an \<open>Authorization\<close> header, and
  returns what the service answers.
\<close>

theorem suspendPassport_without_credential:
  "\<not> truthy (apiKey anonymous_client)
   \<and> createPassport anonymous_client (always (ok (JObj [(''agent_id'', JStr ''agt_new'')]))) []
        (JObj [(''name'', JStr ''Test Agent'')])
     = (Inl (Error (Lit
          ''API key required for passport creation. Set APORT_API_KEY environment variable or use --api-key option.'')),
        [])
   \<and> suspendPassport anonymous_client (always (ok (JObj [(''success'', JBool True)]))) []
        (JStr ''agt_1'') JUndef
     = (Inr (JObj [(''success'', JBool True)]),
        [\<lparr> rq_method = POST, rq_url = Lit ''/api/suspend'',
           rq_body = JObj [(''agent_id'', JStr ''agt_1''), (''reason'', JStr ''Suspended via CLI'')],
           rq_params = [], rq_headers = [(''Content-Type'', Lit ''application/json'')] \<rparr>])"
  by (simp add: createPassport_def suspendPassport_def suspend_request_def always_def ok_def
      default_param_def anonymous_client_def new_APortClient_def Let_def js_or_def env_value_def)

text \<open>
  C10. The constructor never throws: for all options and every environment it yields a
  client, whose \<open>apiKey\<close> is \<open>options.apiKey || process.env.APORT_API_KEY\<close>. The client's
  headers hold \<open>Authorization: Bearer ${apiKey}\<close> exactly when that key is truthy, and
  every request a method of the client issues carries the client's headers. So when
  neither the option nor the environment variable gives a key, construction succeeds and
  no request of the client has an \<open>Authorization\<close> header. The unit test's expectation
  that the constructor throws once \<open>APORT_API_KEY\<close> is deleted is not met.
\<close>

theorem client_without_api_key:
  "\<exists>c. new_APortClient opts env = Inr c
      \<and> apiKey c = js_or (opt_apiKey opts) (env_value (APORT_API_KEY env))
      \<and> map_of (headers c) ''Authorization''
          = (if truthy (apiKey c) then Some (Interp ''Bearer '' (apiKey c)) else None)
      \<and> (\<exists>new. snd (perform c net hist call) = hist @ new
                \<and> list_all (\<lambda>rq. rq_headers rq = headers c) new)
      \<and> (\<not> truthy (opt_apiKey opts) \<and> \<not> truthy (env_value (APORT_API_KEY env)) \<longrightarrow>
            \<not> truthy (apiKey c)
            \<and> (\<exists>new. snd (perform c net hist call) = hist @ new
                  \<and> list_all (\<lambda>rq. map_of (rq_headers rq) ''Authorization'' = None) new))
      \<and> \<not> constructor_throws env"
proof -
  obtain c where c: "new_APortClient opts env = Inr c"
    by (simp add: new_APortClient_def Let_def)
  have k: "apiKey c = js_or (opt_apiKey opts) (env_value (APORT_API_KEY env))"
    and h: "map_of (headers c) ''Authorization''
          = (if truthy (apiKey c) then Some (Interp ''Bearer '' (apiKey c)) else None)"
    using c by (auto simp add: new_APortClient_def Let_def)
  obtain new where n: "snd (perform c net hist call) = hist @ new"
    "list_all (\<lambda>rq. rq_headers rq = headers c) new"
    using perform_headers by blast
  have a: "\<not> truthy (apiKey c) \<Longrightarrow>
      list_all (\<lambda>rq. map_of (rq_headers rq) ''Authorization'' = None) new"
    using n(2) h by (simp add: list_all_iff)
  have f: "\<not> truthy (opt_apiKey opts) \<and> \<not> truthy (env_value (APORT_API_KEY env))
             \<longrightarrow> \<not> truthy (apiKey c)"
    by (simp add: k js_or_def)
  have t: "\<not> constructor_throws env"
    by (simp add: constructor_throws_def new_APortClient_def Let_def)
  show ?thesis
    using c k h n a f t by blast
qed

text \<open>
  C10 at the client of an environment without a key, suspending a passport (the request
  has the \<open>Content-Type\<close> header only), and at the unit test's environment.
\<close>

theorem client_without_api_key_witness:
  "(\<exists>c. new_APortClient \<lparr> opt_apiKey = JUndef, opt_baseUrl = JUndef \<rparr>
                         \<lparr> APORT_API_KEY = None, APORT_BASE_URL = None \<rparr> = Inr c
        \<and> headers c = [(''Content-Type'', Lit ''application/json'')]
        \<and> snd (perform c (always (ok (JObj []))) [] (SuspendPassport (JStr ''agt_1'') JUndef))
            = [\<lparr> rq_method = POST, rq_url = Lit ''/api/suspend'',
                 rq_body = JObj [(''agent_id'', JStr ''agt_1''),
                                 (''reason'', JStr ''Suspended via CLI'')],
                 rq_params = [], rq_headers = [(''Content-Type'', Lit ''application/json'')] \<rparr>])
   \<and> \<not> constructor_throws \<lparr> APORT_API_KEY = Some ''test-api-key'', APORT_BASE_URL = None \<rparr>"
  using client_without_api_key [where opts = "\<lparr> opt_apiKey = JUndef, opt_baseUrl = JUndef \<rparr>"
      and env = "\<lparr> APORT_API_KEY = None, APORT_BASE_URL = None \<rparr>"
      and net = "always (ok (JObj []))" and hist = "[]"
      and call = "SuspendPassport (JStr ''agt_1'') JUndef"]
    client_without_api_key [where opts = "\<lparr> opt_apiKey = JUndef, opt_baseUrl = JUndef \<rparr>"
      and env = "\<lparr> APORT_API_KEY = Some ''test-api-key'', APORT_BASE_URL = None \<rparr>"]
  by (auto simp add: new_APortClient_def Let_def js_or_def env_value_def always_def ok_def
      suspendPassport_def suspend_request_def default_param_def)

end
